theory Spec2Isabelle
  imports Main
begin

section \<open>Data model of \<^verbatim>\<open>api/bibliography/bibliography.ts\<close>\<close>

text \<open>
  The interface \<^verbatim>\<open>CSL\<close> is imported from \<^verbatim>\<open>../csl\<close>; a CSL object is
  represented by the list of its string-valued own properties (property name, value).
  A property that is missing from the list reads as \<^verbatim>\<open>undefined\<close>.
\<close>

type_synonym CSL = "(string \<times> string) list"

record BibliographyFile =
  displayPath :: string
  fullPath :: string
  isProject :: bool
  writable :: bool

text \<open>
  \<^verbatim>\<open>BibliographySourceWithCollections extends BibliographySource extends CSL\<close>:
  the declared properties \<^verbatim>\<open>id\<close>, \<^verbatim>\<open>providerKey\<close> and \<^verbatim>\<open>collectionKeys\<close>,
  and in \<open>csl\<close> every further own property of the object.
\<close>

record BibliographySourceWithCollections =
  id_src :: string
  providerKey :: string
  collectionKeys :: "string list"
  csl :: CSL

text \<open>
  Reading a property by name, as \<^verbatim>\<open>item.provider\<close> does on a value typed \<^verbatim>\<open>any\<close>:
  the declared properties first, then the further properties of the object.
  \<^verbatim>\<open>collectionKeys\<close> holds an array, never a string, so it reads as no string.
\<close>

definition string_property :: "BibliographySourceWithCollections \<Rightarrow> string \<Rightarrow> string option" where
  "string_property item pname =
     (if pname = ''id'' then Some (id_src item)
      else if pname = ''providerKey'' then Some (providerKey item)
      else if pname = ''collectionKeys'' then None
      else map_of (csl item) pname)"

text \<open>
  A promise, observed when it settles. As a JavaScript value a promise is an object, so
  it is truthy whatever it settles to.
\<close>

datatype 'a promise = Resolved 'a | Rejected

definition promise_truthy :: "'a promise \<Rightarrow> bool" where
  "promise_truthy p = True"

text \<open>
  \<^verbatim>\<open>Promise.all\<close>: resolves to the list of values when every promise resolves, rejects
  as soon as one rejects.
\<close>

fun promise_all :: "'a promise list \<Rightarrow> 'a list promise" where
  "promise_all [] = Resolved []"
| "promise_all (Rejected # ps) = Rejected"
| "promise_all (Resolved v # ps) =
     (case promise_all ps of Rejected \<Rightarrow> Rejected | Resolved vs \<Rightarrow> Resolved (v # vs))"

text \<open>
  \<^verbatim>\<open>interface BibliographyDataProvider\<close>. The two implementations live in files that
  are not part of the sources at hand, so a provider is its methods over an internal
  state \<open>'p\<close> together with the current value of that state. The type \<open>'u\<close> stands for
  \<^verbatim>\<open>EditorUI\<close>, \<open>'d\<close> for \<^verbatim>\<open>ProsemirrorNode\<close> and \<open>'y\<close> for \<^verbatim>\<open>ParsedYaml[]\<close>.
  \<^verbatim>\<open>load\<close> may change the internal state; the other methods read it.
  The methods the manager's modelled operations never call (\<^verbatim>\<open>isEnabled\<close>,
  \<^verbatim>\<open>collections\<close>, \<^verbatim>\<open>itemsForCollection\<close>, \<^verbatim>\<open>warningMessage\<close>) are left out.
\<close>

record ('u, 'd, 'y, 'p) BibliographyDataProvider =
  key :: string
  name :: string
  provider_load :: "string option \<Rightarrow> string \<Rightarrow> 'y \<Rightarrow> 'p \<Rightarrow> bool promise \<times> 'p"
  items :: "'p \<Rightarrow> BibliographySourceWithCollections list"
  bibliographyPaths :: "'p \<Rightarrow> 'd \<Rightarrow> 'u \<Rightarrow> BibliographyFile list"
  provider_generateBibLaTeX :: "'p \<Rightarrow> 'u \<Rightarrow> string \<Rightarrow> CSL \<Rightarrow> string option promise"
  pstate :: 'p

text \<open>
  \<^verbatim>\<open>class BibliographyManager\<close>. The private field \<^verbatim>\<open>fuse\<close> holds a Fuse instance
  built by \<^verbatim>\<open>updateIndex\<close>; it is represented by the collection the index was built
  over. \<^verbatim>\<open>undefined\<close> fields are \<open>None\<close>.
\<close>

record ('u, 'd, 'y, 'p) BibliographyManager =
  fuse :: "BibliographySourceWithCollections list option"
  providers :: "('u, 'd, 'y, 'p) BibliographyDataProvider list"
  sources :: "BibliographySourceWithCollections list option"
  mgr_writable :: "bool option"

datatype load_error = ProviderLoadRejected | ReduceOfEmptyArray

section \<open>The search index\<close>

text \<open>
  Modelled from the spec: the library call \<^verbatim>\<open>Fuse.search(query, {limit, ...})\<close> of
  fuse.js, which is not among the sources. The spec's words: a fuzzy match of the query
  against the weighted fields of every indexed record, sorted by descending relevance
  score, truncated to \<open>limit\<close>; the empty sequence over an empty collection.
  Which records match a query, and how relevant a match is, are parameters
  (\<open>matches\<close>, \<open>relevance\<close>); the limit is a natural number.
\<close>

definition fuse_search ::
  "(string \<Rightarrow> 'a \<Rightarrow> bool) \<Rightarrow> (string \<Rightarrow> 'a \<Rightarrow> 'r::linorder) \<Rightarrow> 'a list \<Rightarrow> string \<Rightarrow> nat \<Rightarrow> 'a list" where
  "fuse_search matches relevance docs query limit =
     take limit (rev (sort_key (relevance query) (filter (matches query) docs)))"

section \<open>The manager's operations\<close>

text \<open>
  The constructor: the two providers in their fixed order, every other field
  \<^verbatim>\<open>undefined\<close>.
\<close>

definition newBibliographyManager ::
  "('u, 'd, 'y, 'p) BibliographyDataProvider \<Rightarrow> ('u, 'd, 'y, 'p) BibliographyDataProvider
     \<Rightarrow> ('u, 'd, 'y, 'p) BibliographyManager" where
  "newBibliographyManager localProvider zoteroProvider =
     \<lparr>fuse = None, providers = [localProvider, zoteroProvider], sources = None, mgr_writable = None\<rparr>"

text \<open>\<^verbatim>\<open>return this.writable || false\<close>\<close>

definition isWritable :: "('u, 'd, 'y, 'p) BibliographyManager \<Rightarrow> bool" where
  "isWritable m = (case mgr_writable m of Some w \<Rightarrow> w | None \<Rightarrow> False)"

text \<open>
  \<^verbatim>\<open>allSources\<close>. An array is truthy even when it is empty, so the first branch is taken
  exactly when \<^verbatim>\<open>sources\<close> is defined and the manager is writable; the result of
  \<^verbatim>\<open>filter\<close> is an array too, so \<^verbatim>\<open>|| []\<close> only answers for \<^verbatim>\<open>undefined\<close>.
  The first argument is the constant \<^verbatim>\<open>kLocalBiliographyProviderKey\<close>, declared in
  a file that is not among the sources.
\<close>

definition allSources ::
  "string \<Rightarrow> ('u, 'd, 'y, 'p) BibliographyManager \<Rightarrow> BibliographySourceWithCollections list" where
  "allSources kLocalBiliographyProviderKey m =
     (case sources m of
        Some srcs \<Rightarrow>
          if isWritable m then srcs
          else filter (\<lambda>source. providerKey source = kLocalBiliographyProviderKey) srcs
      | None \<Rightarrow> [])"

definition hasSources :: "string \<Rightarrow> ('u, 'd, 'y, 'p) BibliographyManager \<Rightarrow> bool" where
  "hasSources kLocalBiliographyProviderKey m = (length (allSources kLocalBiliographyProviderKey m) > 0)"

definition sourcesForProvider ::
  "string \<Rightarrow> ('u, 'd, 'y, 'p) BibliographyManager \<Rightarrow> string \<Rightarrow> BibliographySourceWithCollections list" where
  "sourcesForProvider kLocalBiliographyProviderKey m pKey =
     filter (\<lambda>item. providerKey item = pKey) (allSources kLocalBiliographyProviderKey m)"

definition sourcesForProviderCollection ::
  "string \<Rightarrow> ('u, 'd, 'y, 'p) BibliographyManager \<Rightarrow> string \<Rightarrow> string
     \<Rightarrow> BibliographySourceWithCollections list" where
  "sourcesForProviderCollection kLocalBiliographyProviderKey m provider collectionKey =
     filter (\<lambda>item. collectionKey \<in> set (collectionKeys item))
       (sourcesForProvider kLocalBiliographyProviderKey m provider)"

definition localSources ::
  "string \<Rightarrow> ('u, 'd, 'y, 'p) BibliographyManager \<Rightarrow> BibliographySourceWithCollections list" where
  "localSources kLocalBiliographyProviderKey m =
     filter (\<lambda>source. providerKey source = kLocalBiliographyProviderKey)
       (allSources kLocalBiliographyProviderKey m)"

definition bibliographyFiles ::
  "('u, 'd, 'y, 'p) BibliographyManager \<Rightarrow> 'd \<Rightarrow> 'u \<Rightarrow> BibliographyFile list" where
  "bibliographyFiles m doc ui =
     (let writablePaths = map (\<lambda>provider. bibliographyPaths provider (pstate provider) doc ui) (providers m)
      in concat writablePaths)"

definition shouldAllowWrites :: "('u, 'd, 'y, 'p) BibliographyManager \<Rightarrow> 'd \<Rightarrow> 'u \<Rightarrow> bool" where
  "shouldAllowWrites m doc ui =
     (let bibFiles = bibliographyFiles m doc ui
      in if length bibFiles = 0 then True
         else length (filter (\<lambda>bibFile. writable bibFile) bibFiles) > 0)"

definition writableBibliographyFiles ::
  "('u, 'd, 'y, 'p) BibliographyManager \<Rightarrow> 'd \<Rightarrow> 'u \<Rightarrow> BibliographyFile list" where
  "writableBibliographyFiles m doc ui = filter (\<lambda>bibFile. writable bibFile) (bibliographyFiles m doc ui)"

text \<open>
  \<^verbatim>\<open>generateBibLaTeX\<close>. \<^verbatim>\<open>dataProvider.generateBibLaTeX(ui, id, csl)\<close> is not awaited:
  the condition \<^verbatim>\<open>if (dataProviderBibLaTeX)\<close> tests the promise itself.
  \<open>toBibLaTeX\<close> is imported from \<^verbatim>\<open>./bibDB\<close> and taken as a parameter.
\<close>

definition generateBibLaTeX ::
  "(string \<Rightarrow> CSL \<Rightarrow> string option) \<Rightarrow> ('u, 'd, 'y, 'p) BibliographyManager \<Rightarrow> 'u \<Rightarrow> string \<Rightarrow> CSL
     \<Rightarrow> string option \<Rightarrow> string option promise" where
  "generateBibLaTeX toBibLaTeX m ui ident c provider =
     (case find (\<lambda>prov. Some (key prov) = provider) (providers m) of
        Some dataProvider \<Rightarrow>
          (let dataProviderBibLaTeX = provider_generateBibLaTeX dataProvider (pstate dataProvider) ui ident c
           in if promise_truthy dataProviderBibLaTeX then dataProviderBibLaTeX
              else Resolved (toBibLaTeX ident c))
      | None \<Rightarrow> Resolved (toBibLaTeX ident c))"

text \<open>
  \<^verbatim>\<open>searchAllSources\<close>. The results of the index are mapped to their items; when the
  manager is not writable the items are filtered on their property \<^verbatim>\<open>provider\<close>.
\<close>

definition searchAllSources ::
  "(string \<Rightarrow> BibliographySourceWithCollections \<Rightarrow> bool)
     \<Rightarrow> (string \<Rightarrow> BibliographySourceWithCollections \<Rightarrow> 'r::linorder)
     \<Rightarrow> string \<Rightarrow> ('u, 'd, 'y, 'p) BibliographyManager \<Rightarrow> string \<Rightarrow> nat
     \<Rightarrow> BibliographySourceWithCollections list" where
  "searchAllSources matches relevance kLocalBiliographyProviderKey m query limit =
     (case fuse m of
        Some indexed \<Rightarrow>
          (let itms = fuse_search matches relevance indexed query limit;
               filteredItems =
                 (if isWritable m then itms
                  else filter (\<lambda>item. string_property item ''provider'' = Some kLocalBiliographyProviderKey) itms)
           in filteredItems)
      | None \<Rightarrow> [])"

definition searchProvider ::
  "(string \<Rightarrow> BibliographySourceWithCollections \<Rightarrow> bool)
     \<Rightarrow> (string \<Rightarrow> BibliographySourceWithCollections \<Rightarrow> 'r::linorder)
     \<Rightarrow> string \<Rightarrow> ('u, 'd, 'y, 'p) BibliographyManager \<Rightarrow> string \<Rightarrow> nat \<Rightarrow> string
     \<Rightarrow> BibliographySourceWithCollections list" where
  "searchProvider matches relevance kLocalBiliographyProviderKey m query limit pKey =
     filter (\<lambda>item. providerKey item = pKey)
       (searchAllSources matches relevance kLocalBiliographyProviderKey m query limit)"

definition searchProviderCollection ::
  "(string \<Rightarrow> BibliographySourceWithCollections \<Rightarrow> bool)
     \<Rightarrow> (string \<Rightarrow> BibliographySourceWithCollections \<Rightarrow> 'r::linorder)
     \<Rightarrow> string \<Rightarrow> ('u, 'd, 'y, 'p) BibliographyManager \<Rightarrow> string \<Rightarrow> nat \<Rightarrow> string \<Rightarrow> string
     \<Rightarrow> BibliographySourceWithCollections list" where
  "searchProviderCollection matches relevance kLocalBiliographyProviderKey m query limit pKey collectionKey =
     filter (\<lambda>item. collectionKey \<in> set (collectionKeys item))
       (searchProvider matches relevance kLocalBiliographyProviderKey m query limit pKey)"

text \<open>
  An optional string argument in a condition: \<^verbatim>\<open>undefined\<close> and the empty string are
  falsy, every other string is truthy. \<open>truthy\<close> keeps the argument when it is truthy.
\<close>

fun truthy :: "string option \<Rightarrow> string option" where
  "truthy None = None"
| "truthy (Some s) = (if s = [] then None else Some s)"

definition search ::
  "(string \<Rightarrow> BibliographySourceWithCollections \<Rightarrow> bool)
     \<Rightarrow> (string \<Rightarrow> BibliographySourceWithCollections \<Rightarrow> 'r::linorder)
     \<Rightarrow> string \<Rightarrow> ('u, 'd, 'y, 'p) BibliographyManager \<Rightarrow> string option \<Rightarrow> string option \<Rightarrow> string option
     \<Rightarrow> BibliographySourceWithCollections list" where
  "search matches relevance kLocalBiliographyProviderKey m query pKey collectionKey =
     (let limit = 1000 in
      case truthy query of
        Some q \<Rightarrow>
          (case truthy pKey of
             Some p \<Rightarrow>
               (case truthy collectionKey of
                  Some c \<Rightarrow> searchProviderCollection matches relevance kLocalBiliographyProviderKey m q limit p c
                | None \<Rightarrow> searchProvider matches relevance kLocalBiliographyProviderKey m q limit p)
           | None \<Rightarrow> searchAllSources matches relevance kLocalBiliographyProviderKey m q limit)
      | None \<Rightarrow>
          (case truthy pKey of
             Some p \<Rightarrow>
               (case truthy collectionKey of
                  Some c \<Rightarrow> sourcesForProviderCollection kLocalBiliographyProviderKey m p c
                | None \<Rightarrow> sourcesForProvider kLocalBiliographyProviderKey m p)
           | None \<Rightarrow> allSources kLocalBiliographyProviderKey m))"

text \<open>\<^verbatim>\<open>updateIndex\<close>: a new index over the given records replaces the old one.\<close>

definition updateIndex ::
  "('u, 'd, 'y, 'p) BibliographyManager \<Rightarrow> BibliographySourceWithCollections list
     \<Rightarrow> ('u, 'd, 'y, 'p) BibliographyManager" where
  "updateIndex m bibSources = m\<lparr>fuse := Some bibSources\<rparr>"

text \<open>
  \<^verbatim>\<open>reduce((prev, curr) => prev || curr)\<close> with no initial value: a \<^verbatim>\<open>TypeError\<close> on
  the empty array, the first element folded with the rest otherwise.
\<close>

fun reduce_or :: "bool list \<Rightarrow> bool option" where
  "reduce_or [] = None"
| "reduce_or (b # bs) = Some (foldl (\<lambda>prev curr. prev \<or> curr) b bs)"

text \<open>
  \<^verbatim>\<open>load\<close>. Every provider is loaded (each on its own state); when a load rejects,
  \<^verbatim>\<open>await Promise.all\<close> throws and nothing of the manager is written. The writable flag
  is written before the reduction, so it is kept when the reduction throws. The result is
  the manager after the call and the error the call ended with, if any.
  \<open>parseYamlNodes\<close>, \<open>getDocumentPath\<close> and \<open>getDefaultResourceDir\<close> stand for
  \<^verbatim>\<open>parseYamlNodes(doc)\<close>, \<^verbatim>\<open>ui.context.getDocumentPath()\<close> and
  \<^verbatim>\<open>ui.context.getDefaultResourceDir()\<close>.
\<close>

definition load ::
  "('d \<Rightarrow> 'y) \<Rightarrow> ('u \<Rightarrow> string option) \<Rightarrow> ('u \<Rightarrow> string) \<Rightarrow> 'u \<Rightarrow> 'd
     \<Rightarrow> ('u, 'd, 'y, 'p) BibliographyManager \<Rightarrow> ('u, 'd, 'y, 'p) BibliographyManager \<times> load_error option" where
  "load parseYamlNodes getDocumentPath getDefaultResourceDir ui doc m =
     (let parsedYamlNodes = parseYamlNodes doc;
          docPath = getDocumentPath ui;
          loaded = map (\<lambda>provider.
                      provider_load provider docPath (getDefaultResourceDir ui) parsedYamlNodes (pstate provider))
                     (providers m);
          m1 = m\<lparr>providers := map (\<lambda>(provider, r). provider\<lparr>pstate := snd r\<rparr>) (zip (providers m) loaded)\<rparr>
      in case promise_all (map fst loaded) of
           Rejected \<Rightarrow> (m1, Some ProviderLoadRejected)
         | Resolved providersNeedUpdate \<Rightarrow>
             (let m2 = m1\<lparr>mgr_writable := Some (shouldAllowWrites m1 doc ui)\<rparr>
              in case reduce_or providersNeedUpdate of
                   None \<Rightarrow> (m2, Some ReduceOfEmptyArray)
                 | Some needsIndexUpdate \<Rightarrow>
                     if needsIndexUpdate then
                       (let providersEntries = map (\<lambda>provider. items provider (pstate provider)) (providers m2);
                            srcs = concat providersEntries
                        in (updateIndex (m2\<lparr>sources := Some srcs\<rparr>) srcs, None))
                     else (m2, None)))"

section \<open>A concrete bibliography\<close>

text \<open>
  Two providers in the manager's order, a local one (\<open>''bibl''\<close>) and a remote one
  (\<open>''zotero''\<close>). A provider's state is the records of its last load together with data
  that is pending: its \<^verbatim>\<open>load\<close> takes pending data over and reports a change, and
  reports no change when nothing is pending. A record matches a query when its title or
  its identifier is the query.
\<close>

definition example_A1 :: BibliographySourceWithCollections where
  "example_A1 = \<lparr>id_src = ''A1'', providerKey = ''bibl'', collectionKeys = [''c1''], csl = [(''title'', ''Foo'')]\<rparr>"

definition example_B1 :: BibliographySourceWithCollections where
  "example_B1 = \<lparr>id_src = ''B1'', providerKey = ''zotero'', collectionKeys = [''c2''],
     csl = [(''title'', ''Foo''), (''provider'', ''bibl'')]\<rparr>"

definition example_B2 :: BibliographySourceWithCollections where
  "example_B2 = \<lparr>id_src = ''B2'', providerKey = ''zotero'', collectionKeys = [''c1'', ''c2''], csl = [(''title'', ''Bar'')]\<rparr>"

definition example_matches :: "string \<Rightarrow> BibliographySourceWithCollections \<Rightarrow> bool" where
  "example_matches query item = (string_property item ''title'' = Some query \<or> id_src item = query)"

definition example_relevance :: "string \<Rightarrow> BibliographySourceWithCollections \<Rightarrow> nat" where
  "example_relevance query item = (if id_src item = query then 2 else 1) + (if providerKey item = ''bibl'' then 2 else 0)"

definition example_file :: "bool \<Rightarrow> BibliographyFile" where
  "example_file w = \<lparr>displayPath = ''refs.bib'', fullPath = ''/doc/refs.bib'', isProject = False, writable = w\<rparr>"

definition example_provider ::
  "string \<Rightarrow> BibliographySourceWithCollections list option \<Rightarrow> BibliographyFile list
     \<Rightarrow> (unit, unit, unit, BibliographySourceWithCollections list \<times> BibliographySourceWithCollections list option)
          BibliographyDataProvider" where
  "example_provider k pending files =
     \<lparr>key = k, name = k,
      provider_load = (\<lambda>docPath resourcePath yamlBlocks st.
         case snd st of
           Some fresh \<Rightarrow> (Resolved True, (fresh, None))
         | None \<Rightarrow> (Resolved False, st)),
      items = (\<lambda>st. fst st),
      bibliographyPaths = (\<lambda>st doc ui. files),
      provider_generateBibLaTeX = (\<lambda>st ui ident c. Resolved None),
      pstate = ([], pending)\<rparr>"

definition example_toBibLaTeX :: "string \<Rightarrow> CSL \<Rightarrow> string option" where
  "example_toBibLaTeX ident c =
     Some (''@misc{'' @ ident @ (case map_of c ''title'' of Some t \<Rightarrow> '', title={'' @ t @ ''}'' | None \<Rightarrow> []) @ ''}'')"

definition example_load ::
  "(unit, unit, unit, BibliographySourceWithCollections list \<times> BibliographySourceWithCollections list option)
      BibliographyManager
     \<Rightarrow> (unit, unit, unit, BibliographySourceWithCollections list \<times> BibliographySourceWithCollections list option)
          BibliographyManager \<times> load_error option" where
  "example_load m = load (\<lambda>doc. ()) (\<lambda>ui. None) (\<lambda>ui. ''/res'') () () m"

definition example_fresh ::
  "bool \<Rightarrow> (unit, unit, unit, BibliographySourceWithCollections list \<times> BibliographySourceWithCollections list option)
      BibliographyManager" where
  "example_fresh w =
     newBibliographyManager
        (example_provider ''bibl'' (Some [example_A1]) [example_file w])
        (example_provider ''zotero'' (Some [example_B1, example_B2]) [])"

definition example_readonly ::
  "(unit, unit, unit, BibliographySourceWithCollections list \<times> BibliographySourceWithCollections list option)
      BibliographyManager" where
  "example_readonly = fst (example_load (example_fresh False))"

definition example_writable ::
  "(unit, unit, unit, BibliographySourceWithCollections list \<times> BibliographySourceWithCollections list option)
      BibliographyManager" where
  "example_writable = fst (example_load (example_fresh True))"

definition example_empty ::
  "(unit, unit, unit, BibliographySourceWithCollections list \<times> BibliographySourceWithCollections list option)
      BibliographyManager" where
  "example_empty =
     fst (example_load (newBibliographyManager (example_provider ''bibl'' (Some []) [])
                          (example_provider ''zotero'' (Some []) [])))"

definition example_mixed ::
  "(unit, unit, unit, BibliographySourceWithCollections list \<times> BibliographySourceWithCollections list option)
      BibliographyManager" where
  "example_mixed =
     fst (example_load (newBibliographyManager
            (example_provider ''bibl'' (Some [example_A1]) [example_file False, example_file True])
            (example_provider ''zotero'' None [])))"

section \<open>Properties of the building blocks\<close>

lemma reduce_or_Some: "reduce_or bs = Some b \<Longrightarrow> b = (\<exists>x \<in> set bs. x)"
proof (cases bs)
  case Nil
  assume "reduce_or bs = Some b"
  with Nil show ?thesis by simp
next
  case (Cons a as)
  have f: "foldl (\<lambda>prev curr. prev \<or> curr) acc xs = (acc \<or> (\<exists>x \<in> set xs. x))" for acc xs
    by (induction xs arbitrary: acc) auto
  assume "reduce_or bs = Some b"
  with Cons show ?thesis by (auto simp: f)
qed

lemma zip_map_self:
  "map (\<lambda>(x, r). h x r) (zip xs (map g xs)) = map (\<lambda>x. h x (g x)) xs"
  by (induction xs) simp_all

lemma load_unfold:
  "load pY gP gR ui doc m =
     (let m1 = m\<lparr>providers :=
                 map (\<lambda>provider. provider\<lparr>pstate :=
                        snd (provider_load provider (gP ui) (gR ui) (pY doc) (pstate provider))\<rparr>)
                   (providers m)\<rparr>;
          m2 = m1\<lparr>mgr_writable := Some (shouldAllowWrites m1 doc ui)\<rparr>;
          srcs = concat (map (\<lambda>provider. items provider (pstate provider)) (providers m1))
      in case promise_all
                (map (\<lambda>provider. fst (provider_load provider (gP ui) (gR ui) (pY doc) (pstate provider)))
                   (providers m)) of
           Rejected \<Rightarrow> (m1, Some ProviderLoadRejected)
         | Resolved providersNeedUpdate \<Rightarrow>
             (case reduce_or providersNeedUpdate of
                None \<Rightarrow> (m2, Some ReduceOfEmptyArray)
              | Some needsIndexUpdate \<Rightarrow>
                  if needsIndexUpdate then (m2\<lparr>sources := Some srcs, fuse := Some srcs\<rparr>, None)
                  else (m2, None)))"
  unfolding load_def Let_def updateIndex_def zip_map_self map_map comp_def
  by (simp split: promise.split option.split)

lemma load_providers:
  "providers (fst (load pY gP gR ui doc m)) =
     map (\<lambda>provider. provider\<lparr>pstate :=
            snd (provider_load provider (gP ui) (gR ui) (pY doc) (pstate provider))\<rparr>)
       (providers m)"
  by (simp add: load_unfold Let_def split: promise.split option.split)

lemma shouldAllowWrites_providers:
  "providers m = providers m' \<Longrightarrow> shouldAllowWrites m doc ui = shouldAllowWrites m' doc ui"
  by (simp add: shouldAllowWrites_def bibliographyFiles_def)

lemma shouldAllowWrites_iff:
  "shouldAllowWrites m doc ui =
     (bibliographyFiles m doc ui = [] \<or> (\<exists>f \<in> set (bibliographyFiles m doc ui). writable f))"
  by (auto simp: shouldAllowWrites_def Let_def filter_empty_conv)

lemma load_mgr_writable:
  assumes "snd (load pY gP gR ui doc m) \<noteq> Some ProviderLoadRejected"
  shows "mgr_writable (fst (load pY gP gR ui doc m)) =
           Some (shouldAllowWrites (fst (load pY gP gR ui doc m)) doc ui)"
proof -
  let ?m1 = "m\<lparr>providers :=
                 map (\<lambda>provider. provider\<lparr>pstate :=
                        snd (provider_load provider (gP ui) (gR ui) (pY doc) (pstate provider))\<rparr>)
                   (providers m)\<rparr>"
  have "providers (fst (load pY gP gR ui doc m)) = providers ?m1"
    by (simp add: load_providers)
  then have same: "shouldAllowWrites (fst (load pY gP gR ui doc m)) doc ui = shouldAllowWrites ?m1 doc ui"
    by (rule shouldAllowWrites_providers)
  have "mgr_writable (fst (load pY gP gR ui doc m)) = Some (shouldAllowWrites ?m1 doc ui)"
    using assms by (simp add: load_unfold Let_def split: promise.splits option.splits)
  with same show ?thesis by simp
qed

lemma promise_all_map_Resolved: "promise_all (map (\<lambda>x. Resolved (f x)) xs) = Resolved (map f xs)"
  by (induction xs) simp_all

lemma reduce_or_all_False: "reduce_or (map (\<lambda>x. False) xs) \<noteq> Some True"
proof
  assume "reduce_or (map (\<lambda>x. False) xs) = Some True"
  from reduce_or_Some[OF this] show False by auto
qed

lemma load_unchanged_fields:
  assumes "list_all (\<lambda>provider. fst (provider_load provider (gP ui) (gR ui) (pY doc) (pstate provider)) = Resolved False) (providers m)"
  shows "sources (fst (load pY gP gR ui doc m)) = sources m \<and> fuse (fst (load pY gP gR ui doc m)) = fuse m"
proof -
  have "map (\<lambda>provider. fst (provider_load provider (gP ui) (gR ui) (pY doc) (pstate provider))) (providers m)
          = map (\<lambda>provider. Resolved False) (providers m)"
    using assms by (simp add: list_all_iff)
  then have pa: "promise_all (map (\<lambda>provider. fst (provider_load provider (gP ui) (gR ui) (pY doc) (pstate provider))) (providers m))
          = Resolved (map (\<lambda>provider. False) (providers m))"
    by (simp only: promise_all_map_Resolved)
  show ?thesis
    using reduce_or_all_False[of "providers m"]
    by (simp add: load_unfold Let_def pa split: option.split)
qed

lemma load_index_in_step:
  "fuse m = sources m \<Longrightarrow> fuse (fst (load pY gP gR ui doc m)) = sources (fst (load pY gP gR ui doc m))"
  by (simp add: load_unfold Let_def split: promise.split option.split)

lemma fuse_search_length: "length (fuse_search mt rl docs q limit) \<le> limit"
  by (simp add: fuse_search_def)

lemma fuse_search_sorted: "sorted_wrt (\<lambda>a b. rl q b \<le> rl q a) (fuse_search mt rl docs q limit)"
proof -
  have "sorted (map (rl q) (sort_key (rl q) (filter (mt q) docs)))"
    by simp
  then have "sorted_wrt (\<lambda>a b. rl q a \<le> rl q b) (sort_key (rl q) (filter (mt q) docs))"
    by (simp only: sorted_map)
  then have "sorted_wrt (\<lambda>a b. rl q b \<le> rl q a) (rev (sort_key (rl q) (filter (mt q) docs)))"
    by (simp only: sorted_wrt_rev)
  then show ?thesis
    unfolding fuse_search_def by (rule sorted_wrt_take)
qed

lemma fuse_search_empty: "fuse_search mt rl [] q limit = []"
  by (simp add: fuse_search_def)

lemma searchAllSources_length: "length (searchAllSources mt rl k m q limit) \<le> limit"
proof (cases "fuse m")
  case None
  then show ?thesis by (simp add: searchAllSources_def)
next
  case (Some indexed)
  have "length (filter P (fuse_search mt rl indexed q limit)) \<le> limit" for P
    using length_filter_le[of P "fuse_search mt rl indexed q limit"] fuse_search_length[of mt rl indexed q limit]
    by (rule le_trans)
  with Some fuse_search_length[of mt rl indexed q limit] show ?thesis
    by (simp add: searchAllSources_def Let_def)
qed

lemma searchAllSources_sorted: "sorted_wrt (\<lambda>a b. rl q b \<le> rl q a) (searchAllSources mt rl k m q limit)"
proof (cases "fuse m")
  case None
  then show ?thesis by (simp add: searchAllSources_def)
next
  case (Some indexed)
  with fuse_search_sorted[of rl q mt indexed limit] show ?thesis
    by (simp add: searchAllSources_def Let_def sorted_wrt_filter)
qed

lemma example_readonly_eval:
  "sources example_readonly = Some [example_A1, example_B1, example_B2]"
  "fuse example_readonly = Some [example_A1, example_B1, example_B2]"
  "mgr_writable example_readonly = Some False"
  by (simp_all add: example_readonly_def example_load_def example_fresh_def load_unfold Let_def
      newBibliographyManager_def example_provider_def shouldAllowWrites_def bibliographyFiles_def
      example_file_def)

lemma example_writable_eval:
  "sources example_writable = Some [example_A1, example_B1, example_B2]"
  "fuse example_writable = Some [example_A1, example_B1, example_B2]"
  "mgr_writable example_writable = Some True"
  by (simp_all add: example_writable_def example_load_def example_fresh_def load_unfold Let_def
      newBibliographyManager_def example_provider_def shouldAllowWrites_def bibliographyFiles_def
      example_file_def)

lemma example_load_results:
  "example_load (example_fresh True) = (example_writable, None)"
  "example_load (example_fresh False) = (example_readonly, None)"
  "example_load (newBibliographyManager (example_provider ''bibl'' (Some []) [])
                          (example_provider ''zotero'' (Some []) [])) = (example_empty, None)"
  "example_load (newBibliographyManager
            (example_provider ''bibl'' (Some [example_A1]) [example_file False, example_file True])
            (example_provider ''zotero'' None [])) = (example_mixed, None)"
  by (simp_all add: example_writable_def example_readonly_def example_empty_def example_mixed_def
      example_load_def example_fresh_def load_unfold Let_def
      newBibliographyManager_def example_provider_def)

lemma example_bibliographyFiles:
  "bibliographyFiles example_writable () () = [example_file True]"
  "bibliographyFiles example_readonly () () = [example_file False]"
  "bibliographyFiles example_empty () () = []"
  "bibliographyFiles example_mixed () () = [example_file False, example_file True]"
  by (simp_all add: example_writable_def example_readonly_def example_empty_def example_mixed_def
      example_load_def example_fresh_def bibliographyFiles_def load_providers
      newBibliographyManager_def example_provider_def)

lemma example_readonly_providers:
  "providers example_readonly =
     [example_provider ''bibl'' None [example_file False] \<lparr>pstate := ([example_A1], None)\<rparr>,
      example_provider ''zotero'' None [] \<lparr>pstate := ([example_B1, example_B2], None)\<rparr>]"
  by (simp add: example_readonly_def example_load_def example_fresh_def load_providers
      newBibliographyManager_def example_provider_def)

lemma example_fresh_fuse: "fuse (example_fresh w) = None"
  by (simp add: example_fresh_def newBibliographyManager_def)

lemma example_empty_fuse: "fuse example_empty = Some []"
  by (simp add: example_empty_def example_load_def load_unfold Let_def newBibliographyManager_def
      example_provider_def)

section \<open>Properties of the manager\<close>

text \<open>
  C1. In a loaded manager that is not writable, a free-text search with no provider and
  no collection is meant to return only records of the local provider. The code filters
  the matches on the property \<^verbatim>\<open>provider\<close>, which the record type does not declare,
  and not on \<^verbatim>\<open>providerKey\<close> as \<^verbatim>\<open>allSources\<close> does. In the concrete
  bibliography, loaded read-only, the search for \<open>''Foo''\<close> drops the matching local
  record \<open>example_A1\<close> and returns the remote record \<open>example_B1\<close>, which carries a
  property \<^verbatim>\<open>provider\<close> equal to the local key.
\<close>

theorem search_readonly_filters_provider_property:
  "\<not> isWritable example_readonly \<and>
   sources example_readonly = Some [example_A1, example_B1, example_B2] \<and>
   fuse example_readonly = Some [example_A1, example_B1, example_B2] \<and>
   example_matches ''Foo'' example_A1 \<and> providerKey example_A1 = ''bibl'' \<and>
   providerKey example_B1 = ''zotero'' \<and>
   search example_matches example_relevance ''bibl'' example_readonly (Some ''Foo'') None None = [example_B1] \<and>
   searchAllSources example_matches example_relevance ''bibl'' example_readonly ''Foo'' 1000 = [example_B1]"
  by code_simp

text \<open>
  C2. When the named provider exists, \<^verbatim>\<open>generateBibLaTeX\<close> returns the promise of that
  provider as it is, whatever the promise resolves to: the generic formatter is not
  called, also when the provider resolves to no output.
\<close>

theorem generateBibLaTeX_returns_provider_promise:
  assumes "find (\<lambda>prov. Some (key prov) = provider) (providers m) = Some dataProvider"
  shows "generateBibLaTeX toBibLaTeX m ui ident c provider =
           provider_generateBibLaTeX dataProvider (pstate dataProvider) ui ident c"
  using assms by (simp add: generateBibLaTeX_def promise_truthy_def)

theorem generateBibLaTeX_returns_provider_promise_witness:
  "find (\<lambda>prov. Some (key prov) = Some ''zotero'') (providers example_writable)
     = Some (example_provider ''zotero'' None [] \<lparr>pstate := ([example_B1, example_B2], None)\<rparr>) \<and>
   generateBibLaTeX example_toBibLaTeX example_writable () ''B2'' (csl example_B2) (Some ''zotero'') = Resolved None \<and>
   example_toBibLaTeX ''B2'' (csl example_B2) = Some ''@misc{B2, title={Bar}}''"
proof -
  have f: "find (\<lambda>prov. Some (key prov) = Some ''zotero'') (providers example_writable)
     = Some (example_provider ''zotero'' None [] \<lparr>pstate := ([example_B1, example_B2], None)\<rparr>)"
    by (simp add: example_writable_def example_load_def example_fresh_def load_providers
        newBibliographyManager_def example_provider_def)
  have t: "example_toBibLaTeX ''B2'' (csl example_B2) = Some ''@misc{B2, title={Bar}}''"
    by (simp add: example_toBibLaTeX_def example_B2_def)
  from generateBibLaTeX_returns_provider_promise[OF f, of example_toBibLaTeX "()" "''B2''" "csl example_B2"]
  have "generateBibLaTeX example_toBibLaTeX example_writable () ''B2'' (csl example_B2) (Some ''zotero'') = Resolved None"
    by (simp add: example_provider_def)
  with f t show ?thesis by simp
qed

text \<open>
  C3. In a loaded state \<^verbatim>\<open>allSources\<close> is the whole merged set when the manager is
  writable; when it is not writable it is the merged records whose \<^verbatim>\<open>providerKey\<close> is
  the local key, in their order, and no record of another provider.
\<close>

theorem allSources_visibility_gate:
  assumes "sources m = Some merged"
  shows "(isWritable m \<longrightarrow> allSources kLocal m = merged) \<and>
         (\<not> isWritable m \<longrightarrow>
            allSources kLocal m = filter (\<lambda>source. providerKey source = kLocal) merged \<and>
            set (allSources kLocal m) = {source \<in> set merged. providerKey source = kLocal})"
  using assms by (simp add: allSources_def)

theorem allSources_visibility_gate_witness:
  "sources example_writable = Some [example_A1, example_B1, example_B2] \<and>
   isWritable example_writable \<and>
   allSources ''bibl'' example_writable = [example_A1, example_B1, example_B2] \<and>
   sources example_readonly = Some [example_A1, example_B1, example_B2] \<and>
   \<not> isWritable example_readonly \<and>
   allSources ''bibl'' example_readonly = [example_A1]"
  using allSources_visibility_gate[OF example_writable_eval(1), of "''bibl''"]
        allSources_visibility_gate[OF example_readonly_eval(1), of "''bibl''"]
  by (simp add: isWritable_def example_writable_eval example_readonly_eval
        example_A1_def example_B1_def example_B2_def)

text \<open>
  C4. After a \<^verbatim>\<open>load\<close> in which no provider's load rejects, the manager is writable
  exactly when the concatenation of the providers' \<^verbatim>\<open>bibliographyPaths\<close> is empty or
  holds a file whose \<^verbatim>\<open>writable\<close> is true.
\<close>

theorem load_writability:
  assumes "load parseYamlNodes getDocumentPath getDefaultResourceDir ui doc m = (m', err)"
    and "err \<noteq> Some ProviderLoadRejected"
  shows "isWritable m' =
           (bibliographyFiles m' doc ui = [] \<or> (\<exists>bibFile \<in> set (bibliographyFiles m' doc ui). writable bibFile)) \<and>
         bibliographyFiles m' doc ui =
           concat (map (\<lambda>provider. bibliographyPaths provider (pstate provider) doc ui) (providers m'))"
proof -
  from assms have "mgr_writable m' = Some (shouldAllowWrites m' doc ui)"
    using load_mgr_writable[of parseYamlNodes getDocumentPath getDefaultResourceDir ui doc m] by simp
  then have "isWritable m' = shouldAllowWrites m' doc ui"
    by (simp add: isWritable_def)
  then show ?thesis
    by (simp add: shouldAllowWrites_iff) (simp add: bibliographyFiles_def)
qed

theorem load_writability_witness:
  "example_load (example_fresh False) = (example_readonly, None) \<and>
   bibliographyFiles example_readonly () () = [example_file False] \<and> \<not> isWritable example_readonly \<and>
   bibliographyFiles example_empty () () = [] \<and> isWritable example_empty \<and>
   bibliographyFiles example_mixed () () = [example_file False, example_file True] \<and> isWritable example_mixed"
  using load_writability[OF example_load_results(2)[unfolded example_load_def]]
        load_writability[OF example_load_results(3)[unfolded example_load_def]]
        load_writability[OF example_load_results(4)[unfolded example_load_def]]
  by (simp add: example_bibliographyFiles example_load_results example_file_def)

text \<open>
  C5. A \<^verbatim>\<open>load\<close> in which every provider's load resolves to \<^verbatim>\<open>false\<close> leaves the
  merged record set and the search index as they were.
\<close>

theorem load_without_change_keeps_generation:
  assumes "list_all (\<lambda>provider.
              fst (provider_load provider (getDocumentPath ui) (getDefaultResourceDir ui) (parseYamlNodes doc)
                     (pstate provider)) = Resolved False)
            (providers m)"
  shows "sources (fst (load parseYamlNodes getDocumentPath getDefaultResourceDir ui doc m)) = sources m \<and>
         fuse (fst (load parseYamlNodes getDocumentPath getDefaultResourceDir ui doc m)) = fuse m"
  using assms by (rule load_unchanged_fields)

theorem load_without_change_keeps_generation_witness:
  "list_all (\<lambda>provider. fst (provider_load provider None ''/res'' () (pstate provider)) = Resolved False)
      (providers example_readonly) \<and>
   sources (fst (example_load example_readonly)) = Some [example_A1, example_B1, example_B2] \<and>
   fuse (fst (example_load example_readonly)) = Some [example_A1, example_B1, example_B2]"
proof -
  have h: "list_all (\<lambda>provider. fst (provider_load provider ((\<lambda>ui. None) ()) ((\<lambda>ui. ''/res'') ()) ((\<lambda>doc. ()) ()) (pstate provider)) = Resolved False)
      (providers example_readonly)"
    by (simp add: example_readonly_providers example_provider_def)
  from load_without_change_keeps_generation[of "\<lambda>ui. None" "()" "\<lambda>ui. ''/res''" "\<lambda>doc. ()" "()" example_readonly, OF h] h
  show ?thesis
    by (simp add: example_load_def example_readonly_eval)
qed

text \<open>
  C6. A search with a query returns at most \<open>limit\<close> records (\<open>1000\<close> from the entry
  point \<^verbatim>\<open>search\<close>), ordered by descending relevance of the match.
\<close>

theorem search_bounded_and_ordered:
  assumes "truthy query = Some q"
  shows "length (searchAllSources matches relevance kLocal m q limit) \<le> limit \<and>
         sorted_wrt (\<lambda>a b. relevance q b \<le> relevance q a) (searchAllSources matches relevance kLocal m q limit) \<and>
         length (search matches relevance kLocal m query pKey collectionKey) \<le> 1000 \<and>
         sorted_wrt (\<lambda>a b. relevance q b \<le> relevance q a) (search matches relevance kLocal m query pKey collectionKey)"
proof -
  let ?all = "searchAllSources matches relevance kLocal m q 1000"
  have len: "length (filter P ?all) \<le> 1000" for P
    using length_filter_le[of P ?all] searchAllSources_length[of matches relevance kLocal m q 1000]
    by (rule le_trans)
  have len2: "length (filter P (filter Q ?all)) \<le> 1000" for P Q
    using length_filter_le[of P "filter Q ?all"] len[of Q]
    by (rule le_trans)
  have srt: "sorted_wrt (\<lambda>a b. relevance q b \<le> relevance q a) ?all"
    by (rule searchAllSources_sorted)
  have "length (search matches relevance kLocal m query pKey collectionKey) \<le> 1000"
    using assms len len2 searchAllSources_length[of matches relevance kLocal m q 1000]
    by (simp add: search_def searchProviderCollection_def searchProvider_def split: option.split)
  moreover have "sorted_wrt (\<lambda>a b. relevance q b \<le> relevance q a) (search matches relevance kLocal m query pKey collectionKey)"
    using assms srt
    by (simp add: search_def searchProviderCollection_def searchProvider_def sorted_wrt_filter split: option.split)
  ultimately show ?thesis
    using searchAllSources_length[of matches relevance kLocal m q limit]
          searchAllSources_sorted[of relevance q matches kLocal m limit]
    by simp
qed

theorem search_bounded_and_ordered_witness:
  "truthy (Some ''Foo'') = Some ''Foo'' \<and>
   searchAllSources example_matches example_relevance ''bibl'' example_writable ''Foo'' 1 = [example_A1] \<and>
   search example_matches example_relevance ''bibl'' example_writable (Some ''Foo'') None None = [example_A1, example_B1] \<and>
   example_relevance ''Foo'' example_B1 \<le> example_relevance ''Foo'' example_A1"
proof -
  have t: "truthy (Some ''Foo'') = Some ''Foo''" by simp
  have a: "searchAllSources example_matches example_relevance ''bibl'' example_writable ''Foo'' 1 = [example_A1]"
    by code_simp
  have s: "search example_matches example_relevance ''bibl'' example_writable (Some ''Foo'') None None = [example_A1, example_B1]"
    by code_simp
  have r: "example_relevance ''Foo'' example_B1 \<le> example_relevance ''Foo'' example_A1"
    by code_simp
  from search_bounded_and_ordered[OF t, of example_matches example_relevance "''bibl''" example_writable 1 None None]
    t a s r
  show ?thesis by simp
qed

text \<open>
  C7. When the index has never been built, or was built over an empty merged set,
  \<^verbatim>\<open>searchAllSources\<close> returns the empty sequence, and so does \<^verbatim>\<open>search\<close> with a
  query, whatever the scope. (The index of a manager is built over its merged set:
  \<open>load_index_in_step\<close>.)
\<close>

theorem search_without_index_is_empty:
  assumes "fuse m = None \<or> fuse m = Some []"
  shows "searchAllSources matches relevance kLocal m q limit = [] \<and>
         (q \<noteq> [] \<longrightarrow> search matches relevance kLocal m (Some q) pKey collectionKey = [])"
proof -
  have e: "searchAllSources matches relevance kLocal m q lim = []" for lim
    using assms by (auto simp: searchAllSources_def fuse_search_empty)
  then show ?thesis
    by (simp add: search_def searchProvider_def searchProviderCollection_def split: option.split)
qed

theorem search_without_index_is_empty_witness:
  "fuse (example_fresh True) = None \<and>
   searchAllSources example_matches example_relevance ''bibl'' (example_fresh True) ''Foo'' 1000 = [] \<and>
   search example_matches example_relevance ''bibl'' (example_fresh True) (Some ''Foo'') None None = [] \<and>
   fuse example_empty = Some [] \<and>
   searchAllSources example_matches example_relevance ''bibl'' example_empty ''Foo'' 1000 = [] \<and>
   search example_matches example_relevance ''bibl'' example_empty (Some ''Foo'') (Some ''zotero'') None = []"
proof -
  have a: "fuse (example_fresh True) = None \<or> fuse (example_fresh True) = Some []"
    by (simp add: example_fresh_fuse)
  have b: "fuse example_empty = None \<or> fuse example_empty = Some []"
    by (simp add: example_empty_fuse)
  from search_without_index_is_empty[OF a, of example_matches example_relevance "''bibl''" "''Foo''" 1000 None None]
       search_without_index_is_empty[OF b, of example_matches example_relevance "''bibl''" "''Foo''" 1000 "Some ''zotero''" None]
  show ?thesis
    by (simp add: example_fresh_fuse example_empty_fuse)
qed

text \<open>
  C8. For a non-empty provider key \<open>P\<close> and a non-empty collection key \<open>C\<close>, the search
  scoped by \<open>P\<close> and \<open>C\<close> returns the records of the search scoped by \<open>P\<close> whose
  \<^verbatim>\<open>collectionKeys\<close> contain \<open>C\<close>, in the same order.
\<close>

theorem search_scoping_composition:
  assumes "P \<noteq> []" and "C \<noteq> []"
  shows "search matches relevance kLocal m query (Some P) (Some C) =
           filter (\<lambda>item. C \<in> set (collectionKeys item))
             (search matches relevance kLocal m query (Some P) None)"
  using assms
  by (simp add: search_def searchProviderCollection_def sourcesForProviderCollection_def
      split: option.split)

theorem search_scoping_composition_witness:
  "''zotero'' \<noteq> [] \<and> ''c1'' \<noteq> [] \<and>
   search example_matches example_relevance ''bibl'' example_writable (Some ''Bar'') (Some ''zotero'') None = [example_B2] \<and>
   search example_matches example_relevance ''bibl'' example_writable (Some ''Bar'') (Some ''zotero'') (Some ''c1'') = [example_B2] \<and>
   search example_matches example_relevance ''bibl'' example_writable (Some ''Foo'') (Some ''zotero'') None = [example_B1] \<and>
   search example_matches example_relevance ''bibl'' example_writable (Some ''Foo'') (Some ''zotero'') (Some ''c1'') = []"
proof -
  have p: "''zotero'' \<noteq> []" and c: "''c1'' \<noteq> []" by simp_all
  have b: "search example_matches example_relevance ''bibl'' example_writable (Some ''Bar'') (Some ''zotero'') None = [example_B2]"
    by code_simp
  have f: "search example_matches example_relevance ''bibl'' example_writable (Some ''Foo'') (Some ''zotero'') None = [example_B1]"
    by code_simp
  from search_scoping_composition[OF p c, of example_matches example_relevance "''bibl''" example_writable "Some ''Bar''"]
       search_scoping_composition[OF p c, of example_matches example_relevance "''bibl''" example_writable "Some ''Foo''"]
       b f
  show ?thesis
    by (simp add: example_B1_def example_B2_def)
qed

text \<open>
  Stated for every key the composition fails. An empty provider key counts as no
  provider, and the collection key is then ignored: with the empty provider key the search scoped by collection \<open>''c1''\<close> still returns
  \<open>example_B1\<close>, which is not in that collection.
\<close>

theorem search_scoping_composition_counterexample:
  "search example_matches example_relevance ''bibl'' example_writable (Some ''Foo'') (Some []) (Some ''c1'')
     \<noteq> filter (\<lambda>item. ''c1'' \<in> set (collectionKeys item))
          (search example_matches example_relevance ''bibl'' example_writable (Some ''Foo'') (Some []) None)"
  by code_simp

text \<open>
  C9. A search with the empty string as query is the search with no query: it is the
  scoped filtering of \<^verbatim>\<open>allSources\<close>, and its result does not depend on the index.
\<close>

theorem search_empty_query_is_absent_query:
  "search matches relevance kLocal m (Some []) pKey collectionKey = search matches relevance kLocal m None pKey collectionKey \<and>
   search matches relevance kLocal m (Some []) pKey collectionKey =
     (case truthy pKey of
        Some p \<Rightarrow>
          (case truthy collectionKey of
             Some c \<Rightarrow> sourcesForProviderCollection kLocal m p c
           | None \<Rightarrow> sourcesForProvider kLocal m p)
      | None \<Rightarrow> allSources kLocal m) \<and>
   search matches' relevance' kLocal (m\<lparr>fuse := index\<rparr>) (Some []) pKey collectionKey =
     search matches relevance kLocal m (Some []) pKey collectionKey"
  by (simp add: search_def sourcesForProviderCollection_def sourcesForProvider_def allSources_def
      isWritable_def split: option.split)

text \<open>
  C10. A freshly constructed manager is not writable, has no sources, and has no sources
  for any provider key.
\<close>

theorem fresh_manager_is_empty_and_readonly:
  "isWritable (newBibliographyManager localProvider zoteroProvider) = False \<and>
   allSources kLocal (newBibliographyManager localProvider zoteroProvider) = [] \<and>
   hasSources kLocal (newBibliographyManager localProvider zoteroProvider) = False \<and>
   sourcesForProvider kLocal (newBibliographyManager localProvider zoteroProvider) pKey = []"
  by (simp add: newBibliographyManager_def isWritable_def allSources_def hasSources_def
      sourcesForProvider_def)

end
